theory Spec2Isabelle
  imports Main "HOL-Library.Word"
begin

section \<open>The SNAC to ONNX export script (utility/export\_snac\_onnx.py)\<close>

text \<open>
  The script is glue over two libraries: the \<open>snac\<close> package (the pretrained codec) and
  \<open>torch\<close> (tensors, modules, the ONNX exporter). The script's own statements are
  embedded as HOL functions over an explicit world; what the libraries answer is a
  parameter (\<open>env\<close>), so every theorem holds for every behaviour of the libraries.
  \<open>import torch\<close>, \<open>import sys\<close> and \<open>import os\<close> are taken to succeed.
\<close>

subsection \<open>Exceptions and process outcomes\<close>

text \<open>
  \<open>ModuleNotFoundError\<close> is Python's subclass of \<open>ImportError\<close>, so
  \<open>except ImportError\<close> catches both; any other exception class is \<open>OtherError\<close>
  with its name.
\<close>

datatype exn = ImportError | ModuleNotFoundError | OtherError string

fun is_ImportError :: "exn \<Rightarrow> bool" where
  "is_ImportError ImportError = True"
| "is_ImportError ModuleNotFoundError = True"
| "is_ImportError (OtherError _) = False"

text \<open>
  How the module body ends: it runs to its end, \<open>sys.exit(n)\<close> is called, or an
  exception leaves it uncaught. The interpreter turns these into the exit status
  0, \<open>n\<close> and 1.
\<close>

datatype outcome = Finished | SysExit nat | Uncaught exn

fun exit_status :: "outcome \<Rightarrow> nat" where
  "exit_status Finished = 0"
| "exit_status (SysExit n) = n"
| "exit_status (Uncaught _) = 1"

subsection \<open>Tensors and the random generator\<close>

datatype dtype = Int32 | Int64 | Float32

record tensor =
  dtype :: dtype
  shape :: "nat list"
  data :: "int list"

text \<open>
  \<open>torch.randint(low, high, size, dtype=dt)\<close> is a library function, modelled by its
  documented contract: a tensor of the requested size and dtype, each element an integer
  drawn from \<open>low\<close> (inclusive) to \<open>high\<close> (exclusive). The state of torch's default
  generator is the stream of 32-bit words it will hand out; a call consumes one word for
  each element and reduces it modulo the width of the range, as torch does for ranges
  below \<open>2\<^sup>3\<^sup>2\<close>.
\<close>

type_synonym generator = "nat \<Rightarrow> 32 word"

definition randint ::
  "int \<Rightarrow> int \<Rightarrow> nat list \<Rightarrow> dtype \<Rightarrow> generator \<Rightarrow> tensor \<times> generator" where
  "randint low high sz dt g =
     (let n = prod_list sz
      in (\<lparr>dtype = dt, shape = sz,
           data = map (\<lambda>i. low + uint (g i) mod (high - low)) [0..<n]\<rparr>,
          \<lambda>i. g (i + n)))"

subsection \<open>The pretrained model and the adapter\<close>

text \<open>
  What the script can observe or change of the loaded \<open>torch.nn.Module\<close>: the device it
  sits on, its training flag, and whether its parameters require gradients. The weights
  are opaque. \<open>.to(device)\<close> and \<open>.eval()\<close> are torch's methods: the first changes the
  device, the second clears the training flag, and neither touches anything else.
\<close>

record snac =
  weights :: string
  device :: string
  training :: bool
  requires_grad :: bool

definition to :: "snac \<Rightarrow> string \<Rightarrow> snac" where
  "to m dev = m\<lparr>device := dev\<rparr>"

definition eval :: "snac \<Rightarrow> snac" where
  "eval m = m\<lparr>training := False\<rparr>"

text \<open>\<open>class SnacWrapper(torch.nn.Module)\<close>: one field, set by \<open>__init__\<close>.\<close>

record SnacWrapper =
  model :: snac

definition SnacWrapper_init :: "snac \<Rightarrow> SnacWrapper" where
  "SnacWrapper_init m = \<lparr>model = m\<rparr>"

text \<open>
  \<open>SnacWrapper.forward(self, c0, c1, c2)\<close>. The decoder's \<open>decode\<close> method belongs to the
  \<open>snac\<close> package, so it is the parameter \<open>decode\<close>; it may raise (\<open>Inl\<close>).
\<close>

definition forward ::
  "(snac \<Rightarrow> tensor list \<Rightarrow> exn + 'a) \<Rightarrow> SnacWrapper \<Rightarrow> tensor \<Rightarrow> tensor \<Rightarrow> tensor \<Rightarrow> exn + 'a" where
  "forward decode self c0 c1 c2 =
     (let codes = [c0, c1, c2]
      in decode (model self) codes)"

subsection \<open>The world: output streams, files, library calls\<close>

datatype stream = Stdout | Stderr

text \<open>The arguments of the one call of \<open>torch.onnx.export\<close>.\<close>

record export_call =
  module :: SnacWrapper
  args :: "tensor list"
  path :: string
  input_names :: "string list"
  output_names :: "string list"
  dynamic_axes :: "(string \<times> (nat \<times> string) list) list"
  opset_version :: nat

text \<open>
  Everything the script does that is visible from outside, in the order it happens: a
  line printed to a stream, or a call into a library with its arguments.
\<close>

datatype event =
    Print stream string
  | FromPretrained string
  | To string
  | Eval
  | Randint int int "nat list" dtype
  | OnnxExport export_call

type_synonym fs = "string \<rightharpoonup> string"

record world =
  events :: "event list"
  files :: fs
  gen :: generator
  grad_enabled :: bool

text \<open>
  What the libraries answer. \<open>import_snac\<close> is the exception raised by
  \<open>from snac import SNAC\<close>, if any; \<open>from_pretrained\<close> returns the loaded model or raises;
  \<open>onnx_export\<close> receives the call and the files, leaves the files as it likes (also when
  it fails) and may raise. Both calls run library code that may draw from torch's default
  generator (the loader constructs the modules, whose weights are initialised randomly
  before the pretrained ones replace them; the exporter runs the decoder):
  \<open>from_pretrained_rng\<close> and \<open>onnx_export_rng\<close> say in which state each call leaves
  the generator, given the state it found.
\<close>

record env =
  import_snac :: "exn option"
  from_pretrained :: "string \<Rightarrow> exn + snac"
  from_pretrained_rng :: "generator \<Rightarrow> generator"
  onnx_export :: "export_call \<Rightarrow> fs \<Rightarrow> exn option \<times> fs"
  onnx_export_rng :: "generator \<Rightarrow> generator"

definition emit :: "event \<Rightarrow> world \<Rightarrow> world" where
  "emit e w = w\<lparr>events := events w @ [e]\<rparr>"

definition print :: "stream \<Rightarrow> string \<Rightarrow> world \<Rightarrow> world" where
  "print s line w = emit (Print s line) w"

definition torch_randint ::
  "int \<Rightarrow> int \<Rightarrow> nat list \<Rightarrow> dtype \<Rightarrow> world \<Rightarrow> tensor \<times> world" where
  "torch_randint low high sz dt w =
     (let (t, g) = randint low high sz dt (gen w)
      in (t, emit (Randint low high sz dt) (w\<lparr>gen := g\<rparr>)))"

subsection \<open>export\_model\<close>

definition export_model :: "env \<Rightarrow> string \<Rightarrow> world \<Rightarrow> (exn + unit) \<times> world" where
  "export_model env output_path w0 =
     (let device = ''cpu'';
          w1 = print Stdout ''Loading SNAC model...'' w0;
          w2 = emit (FromPretrained ''hubertsiuzdak/snac_24khz'')
                 (w1\<lparr>gen := from_pretrained_rng env (gen w1)\<rparr>)
      in case from_pretrained env ''hubertsiuzdak/snac_24khz'' of
           Inl e \<Rightarrow> (Inl e, w2)
         | Inr loaded \<Rightarrow>
            (let model = to loaded device;
                 w3 = emit (To device) w2;
                 model = eval model;
                 w4 = emit Eval w3;
                 wrapper = SnacWrapper_init model;
                 (dummy_c0, w5) = torch_randint 0 1024 [1, 10] Int32 w4;
                 (dummy_c1, w6) = torch_randint 0 1024 [1, 20] Int32 w5;
                 (dummy_c2, w7) = torch_randint 0 1024 [1, 40] Int32 w6;
                 w8 = print Stdout (''Exporting to '' @ output_path @ ''...'') w7;
                 call = \<lparr>module = wrapper,
                         args = [dummy_c0, dummy_c1, dummy_c2],
                         path = output_path,
                         input_names = [''codes_0'', ''codes_1'', ''codes_2''],
                         output_names = [''audio''],
                         dynamic_axes =
                           [(''codes_0'', [(0, ''batch''), (1, ''time'')]),
                            (''codes_1'', [(0, ''batch''), (1, ''time'')]),
                            (''codes_2'', [(0, ''batch''), (1, ''time'')]),
                            (''audio'', [(0, ''batch''), (2, ''time'')])],
                         opset_version = 18\<rparr>;
                 w9 = emit (OnnxExport call) (w8\<lparr>gen := onnx_export_rng env (gen w8)\<rparr>)
             in case onnx_export env call (files w9) of
                  (Some e, fs') \<Rightarrow> (Inl e, w9\<lparr>files := fs'\<rparr>)
                | (None, fs') \<Rightarrow>
                    (Inr (), print Stdout ''Export complete.'' (w9\<lparr>files := fs'\<rparr>))))"

subsection \<open>The module body\<close>

text \<open>
  The import guard, then (the class and the function being defined) the
  \<open>if __name__ == "__main__"\<close> block, which calls \<open>export_model()\<close> with its default
  \<open>output_path="snac.onnx"\<close>.
\<close>

definition script :: "env \<Rightarrow> bool \<Rightarrow> world \<Rightarrow> outcome \<times> world" where
  "script env is_main w =
     (case import_snac env of
        Some e \<Rightarrow>
          if is_ImportError e
          then (SysExit 1,
                print Stderr ''Error: 'snac' library not found. Please install it or run this in the orpheus-tts-local environment.'' w)
          else (Uncaught e, w)
      | None \<Rightarrow>
          if is_main
          then (case export_model env ''snac.onnx'' w of
                  (Inl e, w') \<Rightarrow> (Uncaught e, w')
                | (Inr _, w') \<Rightarrow> (Finished, w'))
          else (Finished, w))"

subsection \<open>Reading a trace\<close>

fun printed :: "stream \<Rightarrow> event list \<Rightarrow> string list" where
  "printed s [] = []"
| "printed s (Print s' line # es) = (if s' = s then line # printed s es else printed s es)"
| "printed s (_ # es) = printed s es"

fun export_calls :: "event list \<Rightarrow> export_call list" where
  "export_calls [] = []"
| "export_calls (OnnxExport c # es) = c # export_calls es"
| "export_calls (_ # es) = export_calls es"

fun library_calls :: "event list \<Rightarrow> event list" where
  "library_calls [] = []"
| "library_calls (Print _ _ # es) = library_calls es"
| "library_calls (e # es) = e # library_calls es"

text \<open>The events a run added to the world it started in.\<close>

definition new_events :: "world \<Rightarrow> world \<Rightarrow> event list" where
  "new_events w w' = drop (length (events w)) (events w')"

text \<open>The events that one call of \<open>export_model\<close> adds.\<close>

definition run_events :: "env \<Rightarrow> string \<Rightarrow> world \<Rightarrow> event list" where
  "run_events env output_path w = new_events w (snd (export_model env output_path w))"

text \<open>
  The state of the generator when \<open>export_model\<close>, entered in world \<open>w\<close>, reaches its
  first \<open>torch.randint\<close>: the state of the entry world as the loader left it. The script
  itself has no statement that sets the generator.
\<close>

definition draw_state :: "env \<Rightarrow> world \<Rightarrow> generator" where
  "draw_state env w = from_pretrained_rng env (gen w)"

text \<open>
  Closed forms used to state what a run does: the call that \<open>export_model\<close> hands to the
  exporter once the loader has returned \<open>loaded\<close> and the generator was in state \<open>g\<close>,
  and the events that precede that call. Lemma \<open>export_model_loaded\<close> proves that these
  are what the function produces.
\<close>

definition traced_call :: "snac \<Rightarrow> generator \<Rightarrow> string \<Rightarrow> export_call" where
  "traced_call loaded g output_path =
     \<lparr>module = SnacWrapper_init (eval (to loaded ''cpu'')),
      args = [fst (randint 0 1024 [1, 10] Int32 g),
              fst (randint 0 1024 [1, 20] Int32 (\<lambda>i. g (i + 10))),
              fst (randint 0 1024 [1, 40] Int32 (\<lambda>i. g (i + 30)))],
      path = output_path,
      input_names = [''codes_0'', ''codes_1'', ''codes_2''],
      output_names = [''audio''],
      dynamic_axes =
        [(''codes_0'', [(0, ''batch''), (1, ''time'')]),
         (''codes_1'', [(0, ''batch''), (1, ''time'')]),
         (''codes_2'', [(0, ''batch''), (1, ''time'')]),
         (''audio'', [(0, ''batch''), (2, ''time'')])],
      opset_version = 18\<rparr>"

definition before_export :: "string \<Rightarrow> event list" where
  "before_export output_path =
     [Print Stdout ''Loading SNAC model...'',
      FromPretrained ''hubertsiuzdak/snac_24khz'',
      To ''cpu'', Eval,
      Randint 0 1024 [1, 10] Int32,
      Randint 0 1024 [1, 20] Int32,
      Randint 0 1024 [1, 40] Int32,
      Print Stdout (''Exporting to '' @ output_path @ ''...'')]"

subsection \<open>Example environments\<close>

text \<open>
  Concrete library behaviours on which the theorems below are exercised: a loader that
  returns a freshly constructed module (training flag set, parameters requiring
  gradients, as torch constructs modules) and consumes three draws of the generator, an
  exporter that writes the file and consumes five; then the
  same with the package missing, with the loader failing, and with an exporter that
  fails and leaves a truncated file behind.
\<close>

definition demo_model :: snac where
  "demo_model = \<lparr>weights = ''snac_24khz'', device = ''cpu'', training = True, requires_grad = True\<rparr>"

definition demo_env :: env where
  "demo_env =
     \<lparr>import_snac = None,
      from_pretrained = (\<lambda>_. Inr demo_model),
      from_pretrained_rng = (\<lambda>g i. g (i + 3)),
      onnx_export = (\<lambda>c fs. (None, fs(path c \<mapsto> ''onnx-graph''))),
      onnx_export_rng = (\<lambda>g i. g (i + 5))\<rparr>"

definition no_snac_env :: env where
  "no_snac_env = demo_env\<lparr>import_snac := Some ModuleNotFoundError\<rparr>"

definition offline_env :: env where
  "offline_env = demo_env\<lparr>from_pretrained := (\<lambda>_. Inl (OtherError ''OSError''))\<rparr>"

definition failing_export_env :: env where
  "failing_export_env =
     demo_env\<lparr>onnx_export := (\<lambda>c fs. (Some (OtherError ''UnsupportedOperatorError''),
                                         fs(path c \<mapsto> ''trunc'')))\<rparr>"

definition demo_world :: world where
  "demo_world = \<lparr>events = [], files = Map.empty, gen = (\<lambda>i. of_nat (1000 * i + 7)), grad_enabled = True\<rparr>"

text \<open>A code tensor of \<open>n\<close> zero tokens, to build triples of any lengths.\<close>

definition short_codes :: "nat \<Rightarrow> tensor" where
  "short_codes n = \<lparr>dtype = Int32, shape = [1, n], data = replicate n 0\<rparr>"

section \<open>Properties\<close>

subsection \<open>The shape of a run\<close>

lemma emit_sel [simp]:
  "events (emit e w) = events w @ [e]" "files (emit e w) = files w"
  "gen (emit e w) = gen w" "grad_enabled (emit e w) = grad_enabled w"
  by (simp_all add: emit_def)

lemma print_sel [simp]:
  "events (print s l w) = events w @ [Print s l]" "files (print s l w) = files w"
  "gen (print s l w) = gen w" "grad_enabled (print s l w) = grad_enabled w"
  by (simp_all add: print_def)

lemma randint_fst:
  "fst (randint low high sz dt g) =
     \<lparr>dtype = dt, shape = sz,
      data = map (\<lambda>i. low + uint (g i) mod (high - low)) [0..<prod_list sz]\<rparr>"
  by (simp add: randint_def Let_def)

lemma torch_randint_eq:
  "torch_randint low high sz dt w =
     (fst (randint low high sz dt (gen w)),
      emit (Randint low high sz dt) (w\<lparr>gen := \<lambda>i. gen w (i + prod_list sz)\<rparr>))"
  by (simp add: torch_randint_def randint_def Let_def)

lemma new_events_append [simp]: "events w' = events w @ es \<Longrightarrow> new_events w w' = es"
  by (simp add: new_events_def)

text \<open>The loader raises: the function stops there.\<close>

lemma export_model_load_failed:
  assumes "from_pretrained env ''hubertsiuzdak/snac_24khz'' = Inl e"
  shows "export_model env p w =
     (Inl e, w\<lparr>events := events w @ [Print Stdout ''Loading SNAC model...'',
                                       FromPretrained ''hubertsiuzdak/snac_24khz''],
                gen := draw_state env w\<rparr>)"
  using assms by (simp add: export_model_def print_def emit_def draw_state_def)

text \<open>The loader returns: the function reaches the exporter, whose answer decides.\<close>

lemma export_model_loaded:
  assumes "from_pretrained env ''hubertsiuzdak/snac_24khz'' = Inr m"
  shows "export_model env p w =
     (case onnx_export env (traced_call m (draw_state env w) p) (files w) of
        (Some e, fs') \<Rightarrow>
          (Inl e, w\<lparr>events := events w @ before_export p @ [OnnxExport (traced_call m (draw_state env w) p)],
                     files := fs', gen := onnx_export_rng env (\<lambda>i. draw_state env w (i + 70))\<rparr>)
      | (None, fs') \<Rightarrow>
          (Inr (), w\<lparr>events := events w @ before_export p @ [OnnxExport (traced_call m (draw_state env w) p),
                                    Print Stdout ''Export complete.''],
                      files := fs', gen := onnx_export_rng env (\<lambda>i. draw_state env w (i + 70))\<rparr>))"
proof -
  obtain r fs' where r: "onnx_export env (traced_call m (draw_state env w) p) (files w) = (r, fs')"
    by (cases "onnx_export env (traced_call m (draw_state env w) p) (files w)")
  show ?thesis
    unfolding export_model_def Let_def torch_randint_eq
    using assms r
    by (cases r)
       (simp_all add: traced_call_def before_export_def emit_def print_def draw_state_def add.assoc)
qed

subsection \<open>Reading the trace of a run\<close>

lemma export_calls_append [simp]: "export_calls (xs @ ys) = export_calls xs @ export_calls ys"
  by (induction xs rule: export_calls.induct) simp_all

lemma printed_append [simp]: "printed s (xs @ ys) = printed s xs @ printed s ys"
  by (induction s xs rule: printed.induct) simp_all

lemma library_calls_append [simp]: "library_calls (xs @ ys) = library_calls xs @ library_calls ys"
  by (induction xs rule: library_calls.induct) simp_all

lemma run_events_load_failed:
  assumes "from_pretrained env ''hubertsiuzdak/snac_24khz'' = Inl e"
  shows "run_events env p w =
     [Print Stdout ''Loading SNAC model...'', FromPretrained ''hubertsiuzdak/snac_24khz'']"
  by (simp add: run_events_def export_model_load_failed [OF assms])

lemma run_events_loaded:
  assumes "from_pretrained env ''hubertsiuzdak/snac_24khz'' = Inr m"
  shows "run_events env p w =
     before_export p @ [OnnxExport (traced_call m (draw_state env w) p)] @
     (case fst (onnx_export env (traced_call m (draw_state env w) p) (files w)) of
        Some e \<Rightarrow> [] | None \<Rightarrow> [Print Stdout ''Export complete.''])"
  by (simp add: run_events_def export_model_loaded [OF assms] split: prod.splits option.splits)

lemma events_run: "events (snd (export_model env p w)) = events w @ run_events env p w"
proof (cases "from_pretrained env ''hubertsiuzdak/snac_24khz''")
  case (Inl e)
  then show ?thesis
    by (simp add: run_events_load_failed) (simp add: export_model_load_failed)
next
  case (Inr m)
  then show ?thesis
    by (simp add: run_events_loaded) (simp add: export_model_loaded split: prod.splits option.splits)
qed

lemma export_calls_run:
  "export_calls (run_events env p w) =
     (case from_pretrained env ''hubertsiuzdak/snac_24khz'' of
        Inl e \<Rightarrow> [] | Inr m \<Rightarrow> [traced_call m (draw_state env w) p])"
proof (cases "from_pretrained env ''hubertsiuzdak/snac_24khz''")
  case (Inl e)
  then show ?thesis by (simp add: run_events_load_failed)
next
  case (Inr m)
  then show ?thesis by (simp add: run_events_loaded before_export_def split: option.splits)
qed

lemma export_calls_cases:
  assumes "c \<in> set (export_calls (run_events env p w))"
  shows "\<exists>m. from_pretrained env ''hubertsiuzdak/snac_24khz'' = Inr m \<and> c = traced_call m (draw_state env w) p"
  using assms
  by (cases "from_pretrained env ''hubertsiuzdak/snac_24khz''") (simp_all add: export_calls_run)

lemma fst_export_model:
  "fst (export_model env p w) =
     (case from_pretrained env ''hubertsiuzdak/snac_24khz'' of
        Inl e \<Rightarrow> Inl e
      | Inr m \<Rightarrow> (case fst (onnx_export env (traced_call m (draw_state env w) p) (files w)) of
                    Some e \<Rightarrow> Inl e | None \<Rightarrow> Inr ()))"
  by (simp add: export_model_load_failed export_model_loaded split: sum.splits prod.splits option.splits)

lemma files_export_model:
  "files (snd (export_model env p w)) =
     (case from_pretrained env ''hubertsiuzdak/snac_24khz'' of
        Inl e \<Rightarrow> files w
      | Inr m \<Rightarrow> snd (onnx_export env (traced_call m (draw_state env w) p) (files w)))"
  by (simp add: export_model_load_failed export_model_loaded split: sum.splits prod.splits option.splits)

lemma gen_export_model:
  "gen (snd (export_model env p w)) =
     (case from_pretrained env ''hubertsiuzdak/snac_24khz'' of
        Inl e \<Rightarrow> draw_state env w
      | Inr m \<Rightarrow> onnx_export_rng env (\<lambda>i. draw_state env w (i + 70)))"
  by (simp add: export_model_load_failed export_model_loaded split: sum.splits prod.splits option.splits)

lemma grad_enabled_export_model:
  "grad_enabled (snd (export_model env p w)) = grad_enabled w"
  by (cases "from_pretrained env ''hubertsiuzdak/snac_24khz''")
     (simp_all add: export_model_load_failed export_model_loaded split: prod.splits option.splits)

lemma traced_call_sel:
  "module (traced_call m g p) = SnacWrapper_init (eval (to m ''cpu''))"
  "path (traced_call m g p) = p"
  "input_names (traced_call m g p) = [''codes_0'', ''codes_1'', ''codes_2'']"
  "output_names (traced_call m g p) = [''audio'']"
  "dynamic_axes (traced_call m g p) =
        [(''codes_0'', [(0, ''batch''), (1, ''time'')]),
         (''codes_1'', [(0, ''batch''), (1, ''time'')]),
         (''codes_2'', [(0, ''batch''), (1, ''time'')]),
         (''audio'', [(0, ''batch''), (2, ''time'')])]"
  "opset_version (traced_call m g p) = 18"
  by (simp_all add: traced_call_def)

lemma traced_call_args:
  "args (traced_call m g p) =
     [\<lparr>dtype = Int32, shape = [1, 10], data = map (\<lambda>i. uint (g i) mod 1024) [0..<10]\<rparr>,
      \<lparr>dtype = Int32, shape = [1, 20], data = map (\<lambda>i. uint (g (i + 10)) mod 1024) [0..<20]\<rparr>,
      \<lparr>dtype = Int32, shape = [1, 40], data = map (\<lambda>i. uint (g (i + 30)) mod 1024) [0..<40]\<rparr>]"
  by (simp add: traced_call_def randint_fst)

lemma library_calls_before:
  "library_calls (before_export p) =
     [FromPretrained ''hubertsiuzdak/snac_24khz'', To ''cpu'', Eval,
      Randint 0 1024 [1, 10] Int32, Randint 0 1024 [1, 20] Int32, Randint 0 1024 [1, 40] Int32]"
  by (simp add: before_export_def)

lemma printed_before:
  "printed Stdout (before_export p) =
     [''Loading SNAC model...'', ''Exporting to '' @ p @ ''...'']"
  "printed Stderr (before_export p) = []"
  by (simp_all add: before_export_def)

lemma export_calls_count:
  "length (export_calls (run_events env p w)) =
     (case from_pretrained env ''hubertsiuzdak/snac_24khz'' of Inl e \<Rightarrow> 0 | Inr m \<Rightarrow> 1)"
  by (simp add: export_calls_run split: sum.splits)

subsection \<open>The values drawn\<close>

lemma residue_range: "0 \<le> uint (r :: 32 word) mod 1024 \<and> uint r mod 1024 \<le> 1023"
  using pos_mod_bound [of 1024 "uint r"] pos_mod_sign [of 1024 "uint r"] by simp

text \<open>Of the \<open>2\<^sup>3\<^sup>2\<close> words, exactly \<open>2\<^sup>2\<^sup>2\<close> have a given residue modulo 1024.\<close>

lemma card_residue_nat:
  assumes "v < 1024"
  shows "card {n::nat. n < 2 ^ 32 \<and> n mod 1024 = v} = 2 ^ 22"
proof -
  have p: "(2::nat) ^ 32 = 2 ^ 22 * 1024" by simp
  have "{n::nat. n < 2 ^ 32 \<and> n mod 1024 = v} = (\<lambda>k. 1024 * k + v) ` {..<2 ^ 22}"
  proof (intro equalityI subsetI)
    fix n assume "n \<in> {n::nat. n < 2 ^ 32 \<and> n mod 1024 = v}"
    then have n: "n < 2 ^ 22 * 1024" "n mod 1024 = v" unfolding p by simp_all
    from n(1) have "n div 1024 < 2 ^ 22" by (rule less_mult_imp_div_less)
    moreover have "n = 1024 * (n div 1024) + v"
      using n(2) mult_div_mod_eq [of 1024 n] by simp
    ultimately show "n \<in> (\<lambda>k. 1024 * k + v) ` {..<2 ^ 22}" by blast
  next
    fix n assume "n \<in> (\<lambda>k. 1024 * k + v) ` {..<2 ^ 22}"
    then obtain k where k: "k < 2 ^ 22" "n = 1024 * k + v" by auto
    from k(1) have "Suc k \<le> 2 ^ 22" by simp
    then have "1024 * Suc k \<le> 1024 * 2 ^ 22" by (rule mult_le_mono2)
    with assms k(2) have "n < 2 ^ 22 * 1024" by simp
    moreover from k(2) assms have "n mod 1024 = v" by simp
    ultimately show "n \<in> {n::nat. n < 2 ^ 32 \<and> n mod 1024 = v}" unfolding p by simp
  qed
  moreover have "inj_on (\<lambda>k::nat. 1024 * k + v) {..<2 ^ 22}"
    by (rule inj_onI) simp
  ultimately show ?thesis by (simp add: card_image)
qed

lemma card_residue_word:
  assumes "v < 1024"
  shows "card {r :: 32 word. unat r mod 1024 = v} = 2 ^ 22"
proof -
  have "bij_betw unat {r :: 32 word. unat r mod 1024 = v} {n::nat. n < 2 ^ 32 \<and> n mod 1024 = v}"
  proof (rule bij_betw_byWitness [where f' = of_nat])
    show "\<forall>r \<in> {r :: 32 word. unat r mod 1024 = v}. of_nat (unat r) = r" by simp
    show "\<forall>n \<in> {n::nat. n < 2 ^ 32 \<and> n mod 1024 = v}. unat (of_nat n :: 32 word) = n"
      by (simp add: unat_of_nat)
    show "unat ` {r :: 32 word. unat r mod 1024 = v} \<subseteq> {n::nat. n < 2 ^ 32 \<and> n mod 1024 = v}"
    proof
      fix n assume "n \<in> unat ` {r :: 32 word. unat r mod 1024 = v}"
      then obtain r :: "32 word" where "n = unat r" "unat r mod 1024 = v" by auto
      moreover have "unat r < 2 ^ 32" using unsigned_less [of r, where 'a = nat] by simp
      ultimately show "n \<in> {n::nat. n < 2 ^ 32 \<and> n mod 1024 = v}" by simp
    qed
    show "of_nat ` {n::nat. n < 2 ^ 32 \<and> n mod 1024 = v} \<subseteq> {r :: 32 word. unat r mod 1024 = v}"
      by (auto simp: unat_of_nat)
  qed
  then have "card {r :: 32 word. unat r mod 1024 = v} = card {n::nat. n < 2 ^ 32 \<and> n mod 1024 = v}"
    by (rule bij_betw_same_card)
  with assms show ?thesis by (simp only: card_residue_nat)
qed

lemma uint_residue: "uint (r :: 32 word) mod 1024 = int v \<longleftrightarrow> unat r mod 1024 = v"
proof -
  have "uint r mod 1024 = int (unat r mod 1024)"
    by (simp add: zmod_int)
  then show ?thesis by simp
qed

lemma single_draw: "data (fst (randint 0 1024 [1, 1] Int32 (\<lambda>i. r))) = [uint r mod 1024]"
  by (simp add: randint_fst)

lemma shifted_upt: "map (\<lambda>i. f (i + n)) [0..<m] = map f [n..<m + n]"
proof -
  have "map f (map (\<lambda>i. i + n) [0..<m]) = map f [n..<m + n]"
    by (simp only: map_add_upt)
  then show ?thesis by (simp add: comp_def)
qed

lemma traced_values:
  "concat (map data (args (traced_call m g p))) = map (\<lambda>i. uint (g i) mod 1024) [0..<70]"
proof -
  have "[0..<70] = [0..<10] @ [10..<30] @ [30..<70::nat]"
    using upt_add_eq_append [of 0 10 20] upt_add_eq_append [of 0 30 40] by simp
  moreover have "map (\<lambda>i. uint (g (i + 10)) mod 1024) [0..<20]
                   = map (\<lambda>i. uint (g i) mod 1024) [10..<30]"
    using shifted_upt [of "\<lambda>i. uint (g i) mod 1024" 10 20] by simp
  moreover have "map (\<lambda>i. uint (g (i + 30)) mod 1024) [0..<40]
                   = map (\<lambda>i. uint (g i) mod 1024) [30..<70]"
    using shifted_upt [of "\<lambda>i. uint (g i) mod 1024" 30 40] by simp
  ultimately show ?thesis by (simp add: traced_call_args)
qed

lemma traced_values_eq_iff:
  "map data (args (traced_call m g p)) = map data (args (traced_call m' g' p'))
     \<longleftrightarrow> (\<forall>i<70. uint (g i) mod 1024 = uint (g' i) mod 1024)"
proof
  assume "map data (args (traced_call m g p)) = map data (args (traced_call m' g' p'))"
  then have "concat (map data (args (traced_call m g p)))
               = concat (map data (args (traced_call m' g' p')))"
    by simp
  then have "map (\<lambda>i. uint (g i) mod 1024) [0..<70] = map (\<lambda>i. uint (g' i) mod 1024) [0..<70]"
    by (simp only: traced_values)
  then show "\<forall>i<70. uint (g i) mod 1024 = uint (g' i) mod 1024"
    by (simp add: map_eq_conv)
next
  assume a: "\<forall>i<70. uint (g i) mod 1024 = uint (g' i) mod 1024"
  show "map data (args (traced_call m g p)) = map data (args (traced_call m' g' p'))"
    using a by (simp add: traced_call_args)
qed

subsection \<open>The example environment\<close>

lemma demo_loaded: "from_pretrained demo_env s = Inr demo_model"
  by (simp add: demo_env_def)

lemma demo_calls:
  "export_calls (run_events demo_env p demo_world) = [traced_call demo_model (draw_state demo_env demo_world) p]"
  by (simp add: export_calls_run demo_loaded)

lemma demo_draw_state: "draw_state demo_env demo_world = (\<lambda>i. of_nat (1000 * (i + 3) + 7))"
  by (simp add: draw_state_def demo_env_def demo_world_def)

subsection \<open>The adapter\<close>

text \<open>
  Claim C1. \<open>SnacWrapper.forward\<close> takes exactly three code tensors (its type has no
  other arity) and hands them to the decoder's \<open>decode\<close> as the list \<open>[c0, c1, c2]\<close>, in
  this order; what \<open>decode\<close> returns or raises is the result, unchanged. This holds for
  every wrapper, and for the wrapper that \<open>__init__\<close> builds around a model \<open>m\<close> the
  decoder called is that of \<open>m\<close>.
\<close>

theorem forward_is_decode:
  "forward decode self c0 c1 c2 = decode (model self) [c0, c1, c2]
   \<and> forward decode (SnacWrapper_init m) c0 c1 c2 = decode m [c0, c1, c2]"
  by (simp add: forward_def SnacWrapper_init_def)

subsection \<open>The export call\<close>

text \<open>
  Claim C2. A run of \<open>export_model\<close> calls the exporter once when the model was loaded
  (and not at all when loading raised). That call names the inputs \<open>codes_0\<close>,
  \<open>codes_1\<close>, \<open>codes_2\<close> and the output \<open>audio\<close>, declares axes 0 (batch) and 1 (time)
  dynamic for each input and axes 0 (batch) and 2 (time) for the output, declares dynamic
  axes for these four names only, asks for opset version 18, and writes to the given path.
\<close>

theorem export_call_names_axes_opset:
  "length (export_calls (run_events env p w)) =
     (case from_pretrained env ''hubertsiuzdak/snac_24khz'' of Inl e \<Rightarrow> 0 | Inr m \<Rightarrow> 1)
   \<and> (\<forall>c \<in> set (export_calls (run_events env p w)).
         input_names c = [''codes_0'', ''codes_1'', ''codes_2'']
       \<and> output_names c = [''audio'']
       \<and> (\<forall>n \<in> set (input_names c).
             map_of (dynamic_axes c) n = Some [(0, ''batch''), (1, ''time'')])
       \<and> (\<forall>n \<in> set (output_names c).
             map_of (dynamic_axes c) n = Some [(0, ''batch''), (2, ''time'')])
       \<and> map fst (dynamic_axes c) = input_names c @ output_names c
       \<and> opset_version c = 18
       \<and> path c = p)"
proof (intro conjI ballI)
  show "length (export_calls (run_events env p w)) =
     (case from_pretrained env ''hubertsiuzdak/snac_24khz'' of Inl e \<Rightarrow> 0 | Inr m \<Rightarrow> 1)"
    by (simp add: export_calls_run split: sum.splits)
next
  fix c assume "c \<in> set (export_calls (run_events env p w))"
  then obtain m where c: "c = traced_call m (draw_state env w) p"
    using export_calls_cases by blast
  show "input_names c = [''codes_0'', ''codes_1'', ''codes_2'']"
    and "output_names c = [''audio'']"
    and "opset_version c = 18"
    and "path c = p"
    and "map fst (dynamic_axes c) = input_names c @ output_names c"
    and "\<And>n. n \<in> set (input_names c) \<Longrightarrow>
           map_of (dynamic_axes c) n = Some [(0, ''batch''), (1, ''time'')]"
    and "\<And>n. n \<in> set (output_names c) \<Longrightarrow>
           map_of (dynamic_axes c) n = Some [(0, ''batch''), (2, ''time'')]"
    unfolding c traced_call_sel by auto
qed

theorem export_call_names_axes_opset_witness:
  "\<exists>c. export_calls (run_events demo_env ''snac.onnx'' demo_world) = [c]
     \<and> input_names c = [''codes_0'', ''codes_1'', ''codes_2'']
     \<and> output_names c = [''audio'']
     \<and> map_of (dynamic_axes c) ''codes_0'' = Some [(0, ''batch''), (1, ''time'')]
     \<and> map_of (dynamic_axes c) ''codes_1'' = Some [(0, ''batch''), (1, ''time'')]
     \<and> map_of (dynamic_axes c) ''codes_2'' = Some [(0, ''batch''), (1, ''time'')]
     \<and> map_of (dynamic_axes c) ''audio'' = Some [(0, ''batch''), (2, ''time'')]
     \<and> opset_version c = 18
     \<and> path c = ''snac.onnx''"
  using export_call_names_axes_opset [of demo_env "''snac.onnx''" demo_world]
  unfolding demo_calls by simp

subsection \<open>The dummy inputs\<close>

text \<open>
  Claim C3. Once the model is loaded, \<open>export_model\<close> hands the exporter, in its one call,
  three dummy tensors: their time lengths (axis 1) are 10, 20 and 40, they hold that many
  elements, and every element is between 0 and 1023 inclusive, whatever the state of the
  random generator.
\<close>

theorem dummy_lengths_and_vocabulary:
  "length (export_calls (run_events env p w)) =
     (case from_pretrained env ''hubertsiuzdak/snac_24khz'' of Inl e \<Rightarrow> 0 | Inr m \<Rightarrow> 1)
   \<and> (\<forall>c \<in> set (export_calls (run_events env p w)).
         length (args c) = 3
       \<and> map (\<lambda>t. shape t ! 1) (args c) = [10, 20, 40]
       \<and> map (\<lambda>t. length (data t)) (args c) = [10, 20, 40]
       \<and> (\<forall>t \<in> set (args c). \<forall>x \<in> set (data t). 0 \<le> x \<and> x \<le> 1023))"
proof -
  have "\<forall>c \<in> set (export_calls (run_events env p w)).
         length (args c) = 3
       \<and> map (\<lambda>t. shape t ! 1) (args c) = [10, 20, 40]
       \<and> map (\<lambda>t. length (data t)) (args c) = [10, 20, 40]
       \<and> (\<forall>t \<in> set (args c). \<forall>x \<in> set (data t). 0 \<le> x \<and> x \<le> 1023)"
  proof
    fix c assume "c \<in> set (export_calls (run_events env p w))"
    then obtain m where c: "c = traced_call m (draw_state env w) p"
      using export_calls_cases by blast
    show "length (args c) = 3
       \<and> map (\<lambda>t. shape t ! 1) (args c) = [10, 20, 40]
       \<and> map (\<lambda>t. length (data t)) (args c) = [10, 20, 40]
       \<and> (\<forall>t \<in> set (args c). \<forall>x \<in> set (data t). 0 \<le> x \<and> x \<le> 1023)"
      unfolding c traced_call_args using residue_range by auto
  qed
  with export_calls_count [of env p w] show ?thesis by blast
qed

theorem dummy_lengths_and_vocabulary_witness:
  "(case from_pretrained demo_env ''hubertsiuzdak/snac_24khz'' of Inl e \<Rightarrow> 0 | Inr m \<Rightarrow> 1) = (1::nat)
   \<and> (\<exists>c. export_calls (run_events demo_env ''snac.onnx'' demo_world) = [c]
     \<and> length (args c) = 3
     \<and> map (\<lambda>t. shape t ! 1) (args c) = [10, 20, 40]
     \<and> data (hd (args c)) = [959, 935, 911, 887, 863, 839, 815, 791, 767, 743]
     \<and> (\<forall>t \<in> set (args c). \<forall>x \<in> set (data t). 0 \<le> x \<and> x \<le> 1023))"
proof -
  have "data (hd (args (traced_call demo_model (draw_state demo_env demo_world) ''snac.onnx'')))
          = [959, 935, 911, 887, 863, 839, 815, 791, 767, 743]"
    by (simp add: traced_call_args demo_draw_state upt_rec)
  then show ?thesis
    using dummy_lengths_and_vocabulary [of demo_env "''snac.onnx''" demo_world]
    unfolding demo_calls by (simp add: demo_loaded)
qed

text \<open>
  Claim C9. Once the model is loaded, the one export call is handed dummy tensors that are
  each created with dtype int32 and have two axes, the first (batch) of size 1: the shapes
  are (1, 10), (1, 20) and (1, 40).
\<close>

theorem dummy_dtype_and_batch:
  "length (export_calls (run_events env p w)) =
     (case from_pretrained env ''hubertsiuzdak/snac_24khz'' of Inl e \<Rightarrow> 0 | Inr m \<Rightarrow> 1)
   \<and> (\<forall>c \<in> set (export_calls (run_events env p w)).
         map dtype (args c) = [Int32, Int32, Int32]
       \<and> map shape (args c) = [[1, 10], [1, 20], [1, 40]]
       \<and> (\<forall>t \<in> set (args c). length (shape t) = 2 \<and> shape t ! 0 = 1
              \<and> length (data t) = prod_list (shape t)))"
proof -
  have "\<forall>c \<in> set (export_calls (run_events env p w)).
         map dtype (args c) = [Int32, Int32, Int32]
       \<and> map shape (args c) = [[1, 10], [1, 20], [1, 40]]
       \<and> (\<forall>t \<in> set (args c). length (shape t) = 2 \<and> shape t ! 0 = 1
              \<and> length (data t) = prod_list (shape t))"
  proof
    fix c assume "c \<in> set (export_calls (run_events env p w))"
    then obtain m where c: "c = traced_call m (draw_state env w) p"
      using export_calls_cases by blast
    show "map dtype (args c) = [Int32, Int32, Int32]
       \<and> map shape (args c) = [[1, 10], [1, 20], [1, 40]]
       \<and> (\<forall>t \<in> set (args c). length (shape t) = 2 \<and> shape t ! 0 = 1
              \<and> length (data t) = prod_list (shape t))"
      unfolding c traced_call_args by simp
  qed
  with export_calls_count [of env p w] show ?thesis by blast
qed

theorem dummy_dtype_and_batch_witness:
  "(case from_pretrained demo_env ''hubertsiuzdak/snac_24khz'' of Inl e \<Rightarrow> 0 | Inr m \<Rightarrow> 1) = (1::nat)
   \<and> (\<exists>c. export_calls (run_events demo_env ''snac.onnx'' demo_world) = [c]
     \<and> map dtype (args c) = [Int32, Int32, Int32]
     \<and> map shape (args c) = [[1, 10], [1, 20], [1, 40]])"
  using dummy_dtype_and_batch [of demo_env "''snac.onnx''" demo_world]
  unfolding demo_calls by (simp add: demo_loaded)

text \<open>
  Claim C10. The script has no statement that sets the random generator. Once the model
  is loaded, the 70 dummy values handed to the one export call are the residues modulo
  1024 of the next 70 words of torch's default generator, in the state in which the loader
  left the state the process started with. Each value from 0 to 1023 is the residue of
  exactly \<open>2\<^sup>2\<^sup>2\<close> of the \<open>2\<^sup>3\<^sup>2\<close> words, so a drawn value is uniform over the
  vocabulary when the generator's words are uniform. Two runs trace the same values
  exactly when those 70 residues coincide, whereas the dtypes and shapes of the traced
  inputs are the same in every run.
\<close>

theorem dummy_values_follow_generator:
  "length (export_calls (run_events env p w)) =
     (case from_pretrained env ''hubertsiuzdak/snac_24khz'' of Inl e \<Rightarrow> 0 | Inr m \<Rightarrow> 1)
   \<and> (\<forall>c \<in> set (export_calls (run_events env p w)).
         concat (map data (args c)) = map (\<lambda>i. uint (draw_state env w i) mod 1024) [0..<70])
   \<and> (\<forall>v \<in> {0..<1024}.
         card {r :: 32 word. data (fst (randint 0 1024 [1, 1] Int32 (\<lambda>i. r))) = [v]} = 2 ^ 22)
   \<and> ((\<exists>m. from_pretrained env ''hubertsiuzdak/snac_24khz'' = Inr m) \<longrightarrow>
        (map (map data \<circ> args) (export_calls (run_events env p w))
           = map (map data \<circ> args) (export_calls (run_events env p w'))
         \<longleftrightarrow> (\<forall>i<70. uint (draw_state env w i) mod 1024 = uint (draw_state env w' i) mod 1024)))
   \<and> map (map (\<lambda>t. (dtype t, shape t)) \<circ> args) (export_calls (run_events env p w))
       = map (map (\<lambda>t. (dtype t, shape t)) \<circ> args) (export_calls (run_events env p w'))"
proof (intro conjI)
  show "length (export_calls (run_events env p w)) =
     (case from_pretrained env ''hubertsiuzdak/snac_24khz'' of Inl e \<Rightarrow> 0 | Inr m \<Rightarrow> 1)"
    by (rule export_calls_count)
next
  show "\<forall>c \<in> set (export_calls (run_events env p w)).
         concat (map data (args c)) = map (\<lambda>i. uint (draw_state env w i) mod 1024) [0..<70]"
  proof
    fix c assume "c \<in> set (export_calls (run_events env p w))"
    then obtain m where c: "c = traced_call m (draw_state env w) p"
      using export_calls_cases by blast
    show "concat (map data (args c)) = map (\<lambda>i. uint (draw_state env w i) mod 1024) [0..<70]"
      unfolding c by (rule traced_values)
  qed
next
  show "\<forall>v \<in> {0..<1024}.
         card {r :: 32 word. data (fst (randint 0 1024 [1, 1] Int32 (\<lambda>i. r))) = [v]} = 2 ^ 22"
  proof
    fix v :: int assume "v \<in> {0..<1024}"
    then have v: "0 \<le> v" "nat v < 1024" by auto
    have "uint r mod 1024 = v \<longleftrightarrow> unat r mod 1024 = nat v" for r :: "32 word"
      using uint_residue [of r "nat v"] v(1) by simp
    then have "{r :: 32 word. data (fst (randint 0 1024 [1, 1] Int32 (\<lambda>i. r))) = [v]}
            = {r :: 32 word. unat r mod 1024 = nat v}"
      unfolding single_draw by simp
    with v(2) show "card {r :: 32 word. data (fst (randint 0 1024 [1, 1] Int32 (\<lambda>i. r))) = [v]} = 2 ^ 22"
      by (simp only: card_residue_word)
  qed
next
  show "(\<exists>m. from_pretrained env ''hubertsiuzdak/snac_24khz'' = Inr m) \<longrightarrow>
        (map (map data \<circ> args) (export_calls (run_events env p w))
           = map (map data \<circ> args) (export_calls (run_events env p w'))
         \<longleftrightarrow> (\<forall>i<70. uint (draw_state env w i) mod 1024 = uint (draw_state env w' i) mod 1024))"
  proof
    assume "\<exists>m. from_pretrained env ''hubertsiuzdak/snac_24khz'' = Inr m"
    then obtain m where m: "from_pretrained env ''hubertsiuzdak/snac_24khz'' = Inr m" ..
    show "map (map data \<circ> args) (export_calls (run_events env p w))
           = map (map data \<circ> args) (export_calls (run_events env p w'))
         \<longleftrightarrow> (\<forall>i<70. uint (draw_state env w i) mod 1024 = uint (draw_state env w' i) mod 1024)"
      using traced_values_eq_iff [of m "draw_state env w" p m "draw_state env w'" p]
      by (simp add: export_calls_run m)
  qed
next
  show "map (map (\<lambda>t. (dtype t, shape t)) \<circ> args) (export_calls (run_events env p w))
       = map (map (\<lambda>t. (dtype t, shape t)) \<circ> args) (export_calls (run_events env p w'))"
    by (simp add: export_calls_run traced_call_args split: sum.splits)
qed

theorem dummy_values_follow_generator_witness:
  "(\<exists>m. from_pretrained demo_env ''hubertsiuzdak/snac_24khz'' = Inr m)
   \<and> map (map data \<circ> args) (export_calls (run_events demo_env ''snac.onnx'' demo_world))
       \<noteq> map (map data \<circ> args)
           (export_calls (run_events demo_env ''snac.onnx'' (demo_world\<lparr>gen := (\<lambda>i. 0)\<rparr>)))
   \<and> map (map (\<lambda>t. (dtype t, shape t)) \<circ> args)
        (export_calls (run_events demo_env ''snac.onnx'' demo_world))
       = map (map (\<lambda>t. (dtype t, shape t)) \<circ> args)
           (export_calls (run_events demo_env ''snac.onnx'' (demo_world\<lparr>gen := (\<lambda>i. 0)\<rparr>)))
   \<and> (517::int) \<in> {0..<1024}
   \<and> card {r :: 32 word. data (fst (randint 0 1024 [1, 1] Int32 (\<lambda>i. r))) = [517]} = 2 ^ 22
   \<and> (\<exists>c. export_calls (run_events demo_env ''snac.onnx'' demo_world) = [c]
          \<and> take 3 (concat (map data (args c))) = [959, 935, 911])"
proof -
  note T = dummy_values_follow_generator
             [where env = demo_env and p = "''snac.onnx''" and w = demo_world
                and w' = "demo_world\<lparr>gen := (\<lambda>i. 0)\<rparr>"]
  have l: "\<exists>m. from_pretrained demo_env ''hubertsiuzdak/snac_24khz'' = Inr m"
    by (simp add: demo_loaded)
  have d0: "uint (draw_state demo_env demo_world 0) mod 1024 = 959"
    by (simp add: demo_draw_state)
  have d1: "uint (draw_state demo_env (demo_world\<lparr>gen := (\<lambda>i. 0)\<rparr>) 0) mod 1024 = 0"
    by (simp add: draw_state_def demo_env_def)
  have "\<not> (\<forall>i<70. uint (draw_state demo_env demo_world i) mod 1024
             = uint (draw_state demo_env (demo_world\<lparr>gen := (\<lambda>i. 0)\<rparr>) i) mod 1024)"
  proof
    assume "\<forall>i<70. uint (draw_state demo_env demo_world i) mod 1024
             = uint (draw_state demo_env (demo_world\<lparr>gen := (\<lambda>i. 0)\<rparr>) i) mod 1024"
    then have "uint (draw_state demo_env demo_world 0) mod 1024
             = uint (draw_state demo_env (demo_world\<lparr>gen := (\<lambda>i. 0)\<rparr>) 0) mod 1024"
      by simp
    with d0 d1 show False by simp
  qed
  with T l have differ:
    "map (map data \<circ> args) (export_calls (run_events demo_env ''snac.onnx'' demo_world))
       \<noteq> map (map data \<circ> args)
           (export_calls (run_events demo_env ''snac.onnx'' (demo_world\<lparr>gen := (\<lambda>i. 0)\<rparr>)))"
    by blast
  from T have same:
    "map (map (\<lambda>t. (dtype t, shape t)) \<circ> args)
        (export_calls (run_events demo_env ''snac.onnx'' demo_world))
       = map (map (\<lambda>t. (dtype t, shape t)) \<circ> args)
           (export_calls (run_events demo_env ''snac.onnx'' (demo_world\<lparr>gen := (\<lambda>i. 0)\<rparr>)))"
    by blast
  from T have "\<forall>v \<in> {0..<1024}.
         card {r :: 32 word. data (fst (randint 0 1024 [1, 1] Int32 (\<lambda>i. r))) = [v]} = 2 ^ 22"
    by blast
  from bspec [OF this, of 517]
  have uni: "card {r :: 32 word. data (fst (randint 0 1024 [1, 1] Int32 (\<lambda>i. r))) = [517]} = 2 ^ 22"
    by simp
  have vals: "take 3 (concat (map data (args (traced_call demo_model
                 (draw_state demo_env demo_world) ''snac.onnx'')))) = [959, 935, 911]"
    by (simp add: traced_call_args demo_draw_state upt_rec)
  then have ex: "\<exists>c. export_calls (run_events demo_env ''snac.onnx'' demo_world) = [c]
          \<and> take 3 (concat (map data (args c))) = [959, 935, 911]"
    unfolding demo_calls by simp
  show ?thesis
    using l differ same uni ex by simp
qed

subsection \<open>The mode of the decoder\<close>

text \<open>
  The reading of claim C7 as stated (the decoder is exported in evaluation mode and with
  gradient tracking off) fails: with a loader that returns parameters requiring gradients
  and a process whose grad mode is enabled, the module handed to the exporter has its
  training flag cleared but its parameters still require gradients, and the grad mode is
  still enabled.
\<close>

theorem inference_mode_counterexample:
  "map (\<lambda>c. (training (model (module c)), requires_grad (model (module c))))
      (export_calls (run_events demo_env ''snac.onnx'' demo_world)) = [(False, True)]
   \<and> grad_enabled (snd (export_model demo_env ''snac.onnx'' demo_world)) = True"
  unfolding demo_calls grad_enabled_export_model
  by (simp add: traced_call_sel SnacWrapper_init_def eval_def to_def demo_model_def demo_world_def)

text \<open>
  Claim C7, amended. The module handed to the exporter is the loaded model moved to the
  device \<open>cpu\<close> with its training flag cleared (\<open>.to(device)\<close> and \<open>.eval()\<close> are called
  before the export call); its weights and the \<open>requires_grad\<close> flag of its parameters are
  those the loader returned, and the run leaves the grad mode as it found it: the script
  does not switch gradient tracking off.
\<close>

theorem eval_mode_before_export:
  "\<forall>c \<in> set (export_calls (run_events env p w)).
       training (model (module c)) = False
     \<and> device (model (module c)) = ''cpu''
     \<and> (\<exists>loaded. from_pretrained env ''hubertsiuzdak/snac_24khz'' = Inr loaded
            \<and> weights (model (module c)) = weights loaded
            \<and> requires_grad (model (module c)) = requires_grad loaded)
     \<and> grad_enabled (snd (export_model env p w)) = grad_enabled w
     \<and> (\<exists>pre post. run_events env p w = pre @ OnnxExport c # post
            \<and> library_calls pre =
                [FromPretrained ''hubertsiuzdak/snac_24khz'', To ''cpu'', Eval,
                 Randint 0 1024 [1, 10] Int32, Randint 0 1024 [1, 20] Int32,
                 Randint 0 1024 [1, 40] Int32])"
proof
  fix c assume "c \<in> set (export_calls (run_events env p w))"
  then obtain m where m: "from_pretrained env ''hubertsiuzdak/snac_24khz'' = Inr m"
    and c: "c = traced_call m (draw_state env w) p"
    using export_calls_cases by blast
  have md: "model (module c) = m\<lparr>device := ''cpu'', training := False\<rparr>"
    by (simp add: c traced_call_sel SnacWrapper_init_def eval_def to_def)
  have "run_events env p w = before_export p @ OnnxExport c #
     (case fst (onnx_export env c (files w)) of
        Some e \<Rightarrow> [] | None \<Rightarrow> [Print Stdout ''Export complete.''])"
    by (simp add: run_events_loaded [OF m] c)
  then have order: "\<exists>pre post. run_events env p w = pre @ OnnxExport c # post
            \<and> library_calls pre =
                [FromPretrained ''hubertsiuzdak/snac_24khz'', To ''cpu'', Eval,
                 Randint 0 1024 [1, 10] Int32, Randint 0 1024 [1, 20] Int32,
                 Randint 0 1024 [1, 40] Int32]"
    using library_calls_before by blast
  show "training (model (module c)) = False
     \<and> device (model (module c)) = ''cpu''
     \<and> (\<exists>loaded. from_pretrained env ''hubertsiuzdak/snac_24khz'' = Inr loaded
            \<and> weights (model (module c)) = weights loaded
            \<and> requires_grad (model (module c)) = requires_grad loaded)
     \<and> grad_enabled (snd (export_model env p w)) = grad_enabled w
     \<and> (\<exists>pre post. run_events env p w = pre @ OnnxExport c # post
            \<and> library_calls pre =
                [FromPretrained ''hubertsiuzdak/snac_24khz'', To ''cpu'', Eval,
                 Randint 0 1024 [1, 10] Int32, Randint 0 1024 [1, 20] Int32,
                 Randint 0 1024 [1, 40] Int32])"
    using order by (simp add: md m grad_enabled_export_model)
qed

theorem eval_mode_before_export_witness:
  "\<exists>c. export_calls (run_events demo_env ''snac.onnx'' demo_world) = [c]
      \<and> training demo_model = True
      \<and> training (model (module c)) = False
      \<and> device (model (module c)) = ''cpu''
      \<and> requires_grad (model (module c)) = True"
  using eval_mode_before_export [of demo_env "''snac.onnx''" demo_world]
  unfolding demo_calls by (simp add: demo_loaded) (simp add: demo_model_def)

subsection \<open>Errors\<close>

text \<open>
  Claim C4. When \<open>from snac import SNAC\<close> raises \<open>ImportError\<close> (or its subclass
  \<open>ModuleNotFoundError\<close>), the script prints one line to standard error, nothing to
  standard output, calls no library function (so no export is started), leaves the files
  as they were, and exits with status 1.
\<close>

theorem missing_dependency_exit:
  assumes "import_snac env = Some e" and "is_ImportError e"
  shows "fst (script env is_main w) = SysExit 1
       \<and> exit_status (fst (script env is_main w)) = 1
       \<and> (\<exists>line. new_events w (snd (script env is_main w)) = [Print Stderr line]
                 \<and> CHR 0x0A \<notin> set line)
       \<and> printed Stdout (new_events w (snd (script env is_main w))) = []
       \<and> library_calls (new_events w (snd (script env is_main w))) = []
       \<and> files (snd (script env is_main w)) = files w"
  using assms by (simp add: script_def)

theorem missing_dependency_exit_witness:
  "import_snac no_snac_env = Some ModuleNotFoundError
   \<and> is_ImportError ModuleNotFoundError
   \<and> exit_status (fst (script no_snac_env True demo_world)) = 1
   \<and> printed Stderr (events (snd (script no_snac_env True demo_world))) =
        [''Error: 'snac' library not found. Please install it or run this in the orpheus-tts-local environment.'']
   \<and> export_calls (events (snd (script no_snac_env True demo_world))) = []
   \<and> files (snd (script no_snac_env True demo_world)) = Map.empty"
proof -
  have h: "import_snac no_snac_env = Some ModuleNotFoundError"
    by (simp add: no_snac_env_def demo_env_def)
  have ev: "events (snd (script no_snac_env True demo_world)) =
      [Print Stderr ''Error: 'snac' library not found. Please install it or run this in the orpheus-tts-local environment.'']"
    by (simp add: script_def h demo_world_def)
  show ?thesis
    using missing_dependency_exit [OF h, of True demo_world] h
    by (simp add: ev) (simp add: demo_world_def)
qed

text \<open>
  Claim C5. An exception raised by the loader or by the exporter leaves \<open>export_model\<close>
  as it is: after a failing loader no further library call is made and the files are
  untouched; after a failing exporter (called once, as the seventh and last library call)
  nothing more happens, and the files stay as the exporter left them. Run as the main
  program, the script ends with that exception uncaught, hence with a nonzero exit status.
\<close>

theorem errors_propagate_uncaught:
  "(from_pretrained env ''hubertsiuzdak/snac_24khz'' = Inl e \<longrightarrow>
        fst (export_model env p w) = Inl e
      \<and> library_calls (run_events env p w) = [FromPretrained ''hubertsiuzdak/snac_24khz'']
      \<and> files (snd (export_model env p w)) = files w)
   \<and> (\<forall>c. export_calls (run_events env p w) = [c]
            \<and> fst (onnx_export env c (files w)) = Some e \<longrightarrow>
        fst (export_model env p w) = Inl e
      \<and> last (run_events env p w) = OnnxExport c
      \<and> length (library_calls (run_events env p w)) = 7
      \<and> files (snd (export_model env p w)) = snd (onnx_export env c (files w)))
   \<and> (import_snac env = None \<and> fst (export_model env ''snac.onnx'' w) = Inl e \<longrightarrow>
        script env True w = (Uncaught e, snd (export_model env ''snac.onnx'' w))
      \<and> exit_status (fst (script env True w)) \<noteq> 0)"
proof (intro conjI allI impI)
  assume l: "from_pretrained env ''hubertsiuzdak/snac_24khz'' = Inl e"
  show "fst (export_model env p w) = Inl e"
    by (simp add: export_model_load_failed [OF l])
  show "library_calls (run_events env p w) = [FromPretrained ''hubertsiuzdak/snac_24khz'']"
    by (simp add: run_events_load_failed [OF l])
  show "files (snd (export_model env p w)) = files w"
    by (simp add: export_model_load_failed [OF l])
next
  fix c
  assume a: "export_calls (run_events env p w) = [c] \<and> fst (onnx_export env c (files w)) = Some e"
  then obtain m where m: "from_pretrained env ''hubertsiuzdak/snac_24khz'' = Inr m"
    and c: "c = traced_call m (draw_state env w) p"
    using export_calls_cases [of c env p w] by auto
  from a c have x: "fst (onnx_export env (traced_call m (draw_state env w) p) (files w)) = Some e"
    by simp
  show "fst (export_model env p w) = Inl e"
    by (simp add: fst_export_model m x)
  show "last (run_events env p w) = OnnxExport c"
    by (simp add: run_events_loaded [OF m] x c)
  show "length (library_calls (run_events env p w)) = 7"
    by (simp add: run_events_loaded [OF m] x library_calls_before)
  show "files (snd (export_model env p w)) = snd (onnx_export env c (files w))"
    by (simp add: files_export_model m c)
next
  assume a: "import_snac env = None \<and> fst (export_model env ''snac.onnx'' w) = Inl e"
  then show "script env True w = (Uncaught e, snd (export_model env ''snac.onnx'' w))"
    by (cases "export_model env ''snac.onnx'' w") (simp add: script_def)
  then show "exit_status (fst (script env True w)) \<noteq> 0"
    by simp
qed

theorem errors_propagate_uncaught_witness:
  "from_pretrained offline_env ''hubertsiuzdak/snac_24khz'' = Inl (OtherError ''OSError'')
   \<and> script offline_env True demo_world =
        (Uncaught (OtherError ''OSError''), snd (export_model offline_env ''snac.onnx'' demo_world))
   \<and> files (snd (export_model offline_env ''snac.onnx'' demo_world)) = Map.empty
   \<and> (\<exists>c. export_calls (run_events failing_export_env ''snac.onnx'' demo_world) = [c]
          \<and> fst (onnx_export failing_export_env c (files demo_world))
               = Some (OtherError ''UnsupportedOperatorError''))
   \<and> script failing_export_env True demo_world =
        (Uncaught (OtherError ''UnsupportedOperatorError''),
         snd (export_model failing_export_env ''snac.onnx'' demo_world))
   \<and> files (snd (export_model failing_export_env ''snac.onnx'' demo_world)) ''snac.onnx''
        = Some ''trunc''
   \<and> exit_status (fst (script failing_export_env True demo_world)) = 1"
proof -
  let ?e1 = "OtherError ''OSError''" and ?e2 = "OtherError ''UnsupportedOperatorError''"
  have l: "from_pretrained offline_env ''hubertsiuzdak/snac_24khz'' = Inl ?e1"
    and i1: "import_snac offline_env = None"
    by (simp_all add: offline_env_def demo_env_def)
  have m: "from_pretrained failing_export_env ''hubertsiuzdak/snac_24khz'' = Inr demo_model"
    and i2: "import_snac failing_export_env = None"
    and x: "onnx_export failing_export_env = (\<lambda>c fs. (Some ?e2, fs(path c \<mapsto> ''trunc'')))"
    by (simp_all add: failing_export_env_def demo_env_def)
  have c: "export_calls (run_events failing_export_env ''snac.onnx'' demo_world)
             = [traced_call demo_model (draw_state failing_export_env demo_world) ''snac.onnx'']"
    by (simp add: export_calls_run m)
  have f0: "files demo_world = Map.empty"
    by (simp add: demo_world_def)
  note t1 = errors_propagate_uncaught [of offline_env ?e1 "''snac.onnx''" demo_world]
  note t2 = errors_propagate_uncaught [of failing_export_env ?e2 "''snac.onnx''" demo_world]
  from t1 l i1 have a: "script offline_env True demo_world =
        (Uncaught ?e1, snd (export_model offline_env ''snac.onnx'' demo_world))"
     and b: "files (snd (export_model offline_env ''snac.onnx'' demo_world)) = Map.empty"
    by (simp_all add: f0)
  from t2 c x i2 have d: "script failing_export_env True demo_world =
        (Uncaught ?e2, snd (export_model failing_export_env ''snac.onnx'' demo_world))"
     and f: "files (snd (export_model failing_export_env ''snac.onnx'' demo_world)) ''snac.onnx''
        = Some ''trunc''"
    by (simp_all add: traced_call_sel)
  show ?thesis
    using l a b c x d f by simp
qed

text \<open>
  Claim C6. The adapter raises an error only if the decoder raises it on the same three
  tensors, and returns whatever the decoder returns, for tensors of any lengths;
  \<open>export_model\<close> raises only what the loader or the exporter raised. The 1:2:4 ratio
  appears only in the lengths of the traced dummy tensors.
\<close>

theorem no_ratio_validation:
  "(\<forall>e. forward decode self c0 c1 c2 = Inl e \<longrightarrow> decode (model self) [c0, c1, c2] = Inl e)
   \<and> (\<forall>a. decode (model self) [c0, c1, c2] = Inr a \<longrightarrow> forward decode self c0 c1 c2 = Inr a)
   \<and> (\<forall>e. fst (export_model env p w) = Inl e \<longrightarrow>
          from_pretrained env ''hubertsiuzdak/snac_24khz'' = Inl e
        \<or> (\<exists>c \<in> set (export_calls (run_events env p w)).
              fst (onnx_export env c (files w)) = Some e))
   \<and> (\<forall>c \<in> set (export_calls (run_events env p w)).
          \<exists>n. map (\<lambda>t. length (data t)) (args c) = [n, 2 * n, 4 * n])"
proof (intro conjI allI impI ballI)
  fix e assume "forward decode self c0 c1 c2 = Inl e"
  then show "decode (model self) [c0, c1, c2] = Inl e"
    by (simp add: forward_def)
next
  fix a assume "decode (model self) [c0, c1, c2] = Inr a"
  then show "forward decode self c0 c1 c2 = Inr a"
    by (simp add: forward_def)
next
  fix e assume a: "fst (export_model env p w) = Inl e"
  show "from_pretrained env ''hubertsiuzdak/snac_24khz'' = Inl e
        \<or> (\<exists>c \<in> set (export_calls (run_events env p w)).
              fst (onnx_export env c (files w)) = Some e)"
  proof (cases "from_pretrained env ''hubertsiuzdak/snac_24khz''")
    case (Inl e')
    with a show ?thesis by (simp add: fst_export_model)
  next
    case (Inr m)
    with a have "fst (onnx_export env (traced_call m (draw_state env w) p) (files w)) = Some e"
      by (simp add: fst_export_model split: option.splits)
    with Inr show ?thesis by (simp add: export_calls_run)
  qed
next
  fix c assume "c \<in> set (export_calls (run_events env p w))"
  then obtain m where c: "c = traced_call m (draw_state env w) p"
    using export_calls_cases by blast
  have "map (\<lambda>t. length (data t)) (args c) = [10, 2 * 10, 4 * 10]"
    unfolding c traced_call_args by simp
  then show "\<exists>n. map (\<lambda>t. length (data t)) (args c) = [n, 2 * n, 4 * n]" ..
qed

theorem no_ratio_validation_witness:
  "forward (\<lambda>m cs. Inr (map (\<lambda>t. length (data t)) cs)) (SnacWrapper_init demo_model)
      (short_codes 3) (short_codes 3) (short_codes 5) = (Inr [3, 3, 5] :: exn + nat list)
   \<and> forward (\<lambda>m cs. Inl (OtherError ''RuntimeError'')) (SnacWrapper_init demo_model)
      (short_codes 3) (short_codes 3) (short_codes 5) = (Inl (OtherError ''RuntimeError'') :: exn + nat list)
   \<and> fst (export_model offline_env ''snac.onnx'' demo_world) = Inl (OtherError ''OSError'')
   \<and> from_pretrained offline_env ''hubertsiuzdak/snac_24khz'' = Inl (OtherError ''OSError'')
   \<and> (\<exists>c. export_calls (run_events demo_env ''snac.onnx'' demo_world) = [c]
          \<and> map (\<lambda>t. length (data t)) (args c) = [10, 20, 40])"
proof -
  let ?ok = "(\<lambda>m cs. Inr (map (\<lambda>t. length (data t)) cs)) :: snac \<Rightarrow> tensor list \<Rightarrow> exn + nat list"
  let ?bad = "(\<lambda>m cs. Inl (OtherError ''RuntimeError'')) :: snac \<Rightarrow> tensor list \<Rightarrow> exn + nat list"
  let ?w = "SnacWrapper_init demo_model"
  have a: "forward ?ok ?w (short_codes 3) (short_codes 3) (short_codes 5) = Inr [3, 3, 5]"
    using no_ratio_validation [of ?ok ?w "short_codes 3" "short_codes 3" "short_codes 5"]
    by (simp add: short_codes_def)
  have b: "forward ?bad ?w (short_codes 3) (short_codes 3) (short_codes 5)
             = Inl (OtherError ''RuntimeError'')"
    by (simp add: forward_def)
  have l: "from_pretrained offline_env ''hubertsiuzdak/snac_24khz'' = Inl (OtherError ''OSError'')"
    by (simp add: offline_env_def demo_env_def)
  have c: "fst (export_model offline_env ''snac.onnx'' demo_world) = Inl (OtherError ''OSError'')"
    by (simp add: fst_export_model l)
  have d: "map (\<lambda>t. length (data t)) (args (traced_call demo_model (draw_state demo_env demo_world) ''snac.onnx''))
             = [10, 20, 40]"
    by (simp add: traced_call_args)
  show ?thesis
    using a b l c d unfolding demo_calls by simp
qed

subsection \<open>Progress messages\<close>

text \<open>
  Claim C8. A run of \<open>export_model\<close> that returns normally did exactly this, in this
  order: it printed the loading message, called the loader, moved the model and set it to
  evaluation mode, drew the three dummy tensors, printed the exporting message, called the
  exporter, and printed \<open>Export complete.\<close>; standard output ends in that line and nothing
  went to standard error. A run that raises does not print \<open>Export complete.\<close>.
\<close>

theorem progress_messages_in_order:
  "(fst (export_model env p w) = Inr () \<longrightarrow>
      (\<exists>c. run_events env p w =
             [Print Stdout ''Loading SNAC model...'',
              FromPretrained ''hubertsiuzdak/snac_24khz'',
              To ''cpu'', Eval,
              Randint 0 1024 [1, 10] Int32,
              Randint 0 1024 [1, 20] Int32,
              Randint 0 1024 [1, 40] Int32,
              Print Stdout (''Exporting to '' @ p @ ''...''),
              OnnxExport c,
              Print Stdout ''Export complete.''])
    \<and> printed Stdout (run_events env p w) =
        [''Loading SNAC model...'', ''Exporting to '' @ p @ ''...'', ''Export complete.'']
    \<and> printed Stderr (run_events env p w) = []
    \<and> last (printed Stdout (events (snd (export_model env p w)))) = ''Export complete.'')
   \<and> (fst (export_model env p w) \<noteq> Inr () \<longrightarrow>
        ''Export complete.'' \<notin> set (printed Stdout (run_events env p w)))"
proof (cases "from_pretrained env ''hubertsiuzdak/snac_24khz''")
  case (Inl e)
  then show ?thesis
    by (simp add: fst_export_model run_events_load_failed)
next
  case (Inr m)
  show ?thesis
  proof (cases "fst (onnx_export env (traced_call m (draw_state env w) p) (files w))")
    case None
    with Inr have ok: "fst (export_model env p w) = Inr ()"
      by (simp add: fst_export_model)
    have ev: "run_events env p w = before_export p @
                [OnnxExport (traced_call m (draw_state env w) p), Print Stdout ''Export complete.'']"
      by (simp add: run_events_loaded [OF Inr] None)
    have "\<exists>c. run_events env p w =
             [Print Stdout ''Loading SNAC model...'',
              FromPretrained ''hubertsiuzdak/snac_24khz'',
              To ''cpu'', Eval,
              Randint 0 1024 [1, 10] Int32,
              Randint 0 1024 [1, 20] Int32,
              Randint 0 1024 [1, 40] Int32,
              Print Stdout (''Exporting to '' @ p @ ''...''),
              OnnxExport c,
              Print Stdout ''Export complete.'']"
      unfolding ev before_export_def by simp
    moreover have "printed Stdout (run_events env p w) =
        [''Loading SNAC model...'', ''Exporting to '' @ p @ ''...'', ''Export complete.'']"
      by (simp add: ev printed_before)
    moreover have "printed Stderr (run_events env p w) = []"
      by (simp add: ev printed_before)
    moreover have "last (printed Stdout (events (snd (export_model env p w)))) = ''Export complete.''"
      by (simp add: events_run ev printed_before)
    ultimately show ?thesis using ok by simp
  next
    case (Some e)
    with Inr have ko: "fst (export_model env p w) = Inl e"
      by (simp add: fst_export_model)
    have "printed Stdout (run_events env p w) =
        [''Loading SNAC model...'', ''Exporting to '' @ p @ ''...'']"
      by (simp add: run_events_loaded [OF Inr] Some printed_before)
    then show ?thesis using ko by simp
  qed
qed

theorem progress_messages_in_order_witness:
  "fst (export_model demo_env ''snac.onnx'' demo_world) = Inr ()
   \<and> printed Stdout (events (snd (export_model demo_env ''snac.onnx'' demo_world))) =
        [''Loading SNAC model...'', ''Exporting to snac.onnx...'', ''Export complete.'']
   \<and> files (snd (export_model demo_env ''snac.onnx'' demo_world)) ''snac.onnx'' = Some ''onnx-graph''
   \<and> fst (export_model failing_export_env ''snac.onnx'' demo_world) \<noteq> Inr ()
   \<and> ''Export complete.'' \<notin> set (printed Stdout (run_events failing_export_env ''snac.onnx'' demo_world))"
proof -
  have x: "onnx_export demo_env = (\<lambda>c fs. (None, fs(path c \<mapsto> ''onnx-graph'')))"
    by (simp add: demo_env_def)
  have ok: "fst (export_model demo_env ''snac.onnx'' demo_world) = Inr ()"
    by (simp add: fst_export_model demo_loaded x)
  have f: "files (snd (export_model demo_env ''snac.onnx'' demo_world)) ''snac.onnx'' = Some ''onnx-graph''"
    by (simp add: files_export_model demo_loaded x traced_call_sel)
  have e0: "events demo_world = []"
    by (simp add: demo_world_def)
  have m: "from_pretrained failing_export_env ''hubertsiuzdak/snac_24khz'' = Inr demo_model"
    and y: "onnx_export failing_export_env =
              (\<lambda>c fs. (Some (OtherError ''UnsupportedOperatorError''), fs(path c \<mapsto> ''trunc'')))"
    by (simp_all add: failing_export_env_def demo_env_def)
  have ko: "fst (export_model failing_export_env ''snac.onnx'' demo_world) \<noteq> Inr ()"
    by (simp add: fst_export_model m y)
  show ?thesis
    using progress_messages_in_order [of demo_env "''snac.onnx''" demo_world]
      progress_messages_in_order [of failing_export_env "''snac.onnx''" demo_world]
      ok f ko
    by (simp add: events_run e0)
qed

end
